theory Spec2Isabelle
  imports Main "HOL-Library.Sublist"
begin

section \<open>Values shared by the whole module\<close>

text \<open>
  The module \<open>fast_gmail/message.py\<close> maps the JSON of a mail API onto three classes
  (\<open>MessagePart\<close>, \<open>Attachment\<close>, \<open>Message\<close>). Python strings are modelled as
  \<open>string\<close> (a list of characters, each with a code below 256), \<open>Optional[str]\<close> as
  \<open>string option\<close>, and every exception the modelled code can raise is a value of
  \<open>error\<close>; a function that can raise returns \<open>error + 'a\<close> with \<open>Inl\<close> for the
  exception. \<open>DecodeError\<close> stands for what the decoders of the standard library raise.
\<close>

datatype error =
    TypeError
  | ValueError
  | AttributeError
  | IndexError
  | HttpError string
  | DecodeError

text \<open>Python's truth test on an \<open>Optional[str]\<close>: \<open>None\<close> and \<open>""\<close> are false.\<close>

fun truthy :: "string option \<Rightarrow> bool" where
  "truthy None = False"
| "truthy (Some s) = (s \<noteq> [])"

subsection \<open>The string methods the module calls\<close>

text \<open>
  \<open>s.split(sep)\<close>: the pieces of \<open>s\<close> between the occurrences of \<open>sep\<close>, found from the
  left and not overlapping. \<open>pieces sep acc s\<close> scans \<open>s\<close> with the current piece
  (reversed) in \<open>acc\<close>. An empty separator raises \<open>ValueError\<close>.
\<close>

function pieces :: "string \<Rightarrow> string \<Rightarrow> string \<Rightarrow> string list" where
  "pieces sep acc [] = [rev acc]"
| "pieces sep acc (c # cs) =
     (if sep \<noteq> [] \<and> prefix sep (c # cs)
      then rev acc # pieces sep [] (drop (length sep) (c # cs))
      else pieces sep (c # acc) cs)"
  by pat_completeness auto
termination
  by (relation "measure (\<lambda>(sep, acc, s). length s)") auto

definition str_split :: "string \<Rightarrow> string \<Rightarrow> error + string list" where
  "str_split sep s = (if sep = [] then Inl ValueError else Inr (pieces sep [] s))"

text \<open>\<open>sub in s\<close> for strings: \<open>sub\<close> occurs in \<open>s\<close> as a contiguous run.\<close>

fun str_in :: "string \<Rightarrow> string \<Rightarrow> bool" where
  "str_in sub [] = (sub = [])"
| "str_in sub (c # cs) = (prefix sub (c # cs) \<or> str_in sub cs)"

text \<open>\<open>s.replace(old, new)\<close> for a one-character \<open>old\<close>, the only use the module makes.\<close>

definition replace_char :: "char \<Rightarrow> string \<Rightarrow> string \<Rightarrow> string" where
  "replace_char old new s = concat (map (\<lambda>c. if c = old then new else [c]) s)"



text \<open>\<open>xs[i]\<close> for a non-negative index: \<open>IndexError\<close> out of range.\<close>

definition index :: "'a list \<Rightarrow> nat \<Rightarrow> error + 'a" where
  "index xs i = (if i < length xs then Inr (xs ! i) else Inl IndexError)"

section \<open>The part tree\<close>

record message_part_body =
  body_size :: int
  attachmentId :: "string option"
  data :: "string option"

record message_header =
  header_name :: string
  header_value :: string

text \<open>
  \<open>MessagePart.__init__\<close> always stores lists in \<open>headers\<close> and \<open>parts\<close> (empty when
  the JSON has no such key) and stores \<open>None\<close> in \<open>body\<close> when the JSON has no body.
\<close>

datatype message_part = MessagePart
  (mimeType: "string option")
  (headers: "message_header list")
  (parts: "message_part list")
  (partId: "string option")
  (filename: "string option")
  (body: "message_part_body option")

section \<open>Content extraction\<close>

text \<open>
  The result dictionary of \<open>_extract_content\<close>: its keys are the values of the
  \<open>mimeType\<close> attribute (a string or \<open>None\<close>), its values lists of decoded texts.
  The standard library's \<open>base64.urlsafe_b64decode(d).decode("utf-8")\<close> is the parameter
  \<open>dec\<close>; it raises on malformed input.
\<close>

type_synonym content_dict = "string option \<rightharpoonup> string list"

definition text_types :: "string option list" where
  "text_types = [Some ''text/plain'', Some ''text/html'']"

fun extract_content :: "(string \<Rightarrow> error + string) \<Rightarrow> message_part \<Rightarrow> content_dict \<Rightarrow> error + content_dict"
  and extract_each :: "(string \<Rightarrow> error + string) \<Rightarrow> message_part list \<Rightarrow> content_dict \<Rightarrow> error + content_dict"
where
  "extract_content dec (MessagePart mt hs ps pid fn b) result =
     (case (if mt \<notin> set text_types then extract_each dec ps result else Inr result) of
        Inl e \<Rightarrow> Inl e
      | Inr r1 \<Rightarrow>
          (let r2 = (case r1 mt of None \<Rightarrow> r1(mt \<mapsto> []) | Some _ \<Rightarrow> r1) in
           case b of
             None \<Rightarrow> Inr r2
           | Some bd \<Rightarrow>
               (case data bd of
                  None \<Rightarrow> Inr r2
                | Some d \<Rightarrow>
                    if d = [] then Inr r2
                    else (case dec d of
                            Inl e \<Rightarrow> Inl e
                          | Inr s \<Rightarrow>
                              Inr (r2(mt \<mapsto> (case r2 mt of None \<Rightarrow> [] | Some xs \<Rightarrow> xs) @ [s]))))))"
| "extract_each dec [] result = Inr result"
| "extract_each dec (p # ps) result =
     (case extract_content dec p result of
        Inl e \<Rightarrow> Inl e
      | Inr r \<Rightarrow> extract_each dec ps r)"

text \<open>
  Of the attributes of \<open>Message\<close> the model keeps those the modelled methods read or
  write: \<open>id\<close>, \<open>payload\<close> and \<open>labelIds\<close>. \<open>Message.__init__\<close> stores
  \<open>kwargs.pop("labelIds", None)\<close>, so \<open>labelIds\<close> is \<open>None\<close> for a message whose JSON
  has no such key. It sets \<open>payload\<close> only when the JSON has a payload: otherwise the
  attribute does not exist (\<open>Unset\<close>) and reading it raises \<open>AttributeError\<close>.
  \<open>NoPayload\<close> stands for an attribute that holds \<open>None\<close>, the case the tests
  \<open>if not self.payload\<close> provide for.
\<close>

datatype payload_attribute = Unset | NoPayload | Payload message_part

record message =
  msg_id :: "string option"
  payload :: payload_attribute
  labelIds :: "string list option"

text \<open>
  \<open>_content\<close> returns \<open>None\<close> or a dictionary. For a payload with children the values
  are lists of texts; for a payload without children the last \<open>return\<close> stores one
  decoded string (not a list) under the key \<open>"multipart/alternative"\<close>.
\<close>

datatype content_value = Texts "string list" | Text string

definition whole_body ::
  "(string \<Rightarrow> error + string) \<Rightarrow> message_part_body option \<Rightarrow>
   error + (string option \<rightharpoonup> content_value) option" where
  "whole_body dec b =
     (case b of
        None \<Rightarrow> Inr None
      | Some bd \<Rightarrow>
          (case data bd of
             None \<Rightarrow> Inl TypeError
           | Some d \<Rightarrow>
               (case dec d of
                  Inl e \<Rightarrow> Inl e
                | Inr s \<Rightarrow> Inr (Some [Some ''multipart/alternative'' \<mapsto> Text s]))))"

definition content ::
  "(string \<Rightarrow> error + string) \<Rightarrow> message \<Rightarrow> error + (string option \<rightharpoonup> content_value) option" where
  "content dec m =
     (case payload m of
        Unset \<Rightarrow> Inl AttributeError
      | NoPayload \<Rightarrow> Inr None
      | Payload p \<Rightarrow>
          if parts p = [] then
            (case body p of
               None \<Rightarrow> whole_body dec (body p)
             | Some bd \<Rightarrow>
                 (case data bd of
                    None \<Rightarrow> whole_body dec (body p)
                  | Some d \<Rightarrow>
                      if mimeType p \<in> set text_types \<and> d \<noteq> [] then
                        (case dec d of
                           Inl e \<Rightarrow> Inl e
                         | Inr s \<Rightarrow> Inr (Some [mimeType p \<mapsto> Texts [s]]))
                      else whole_body dec (body p)))
          else
            (case extract_each dec (parts p) Map.empty of
               Inl e \<Rightarrow> Inl e
             | Inr r \<Rightarrow> Inr (Some (map_option Texts \<circ> r))))"

section \<open>Attachments\<close>

text \<open>
  An \<open>Attachment\<close> also holds a reference to the service object; the model passes the
  service beside the attachment instead.
\<close>

record attachment =
  att_filename :: string
  att_mimeType :: string
  part_id :: "string option"
  att_id :: "string option"
  att_data :: "string option"

definition has_attachments :: "message_part \<Rightarrow> bool" where
  "has_attachments p =
     (if truthy (filename p) then True
      else if parts p = [] then False
      else list_ex (\<lambda>c. truthy (filename c)) (parts p))"

text \<open>
  The loop of the \<open>attachments\<close> property over \<open>self.parts\<close>, with the list built so
  far. \<open>part.body.attachmentId\<close> on a part whose \<open>body\<close> is \<open>None\<close> raises
  \<open>AttributeError\<close>.
\<close>

fun attachments_loop :: "message_part list \<Rightarrow> attachment list \<Rightarrow> error + attachment list" where
  "attachments_loop [] atts = Inr atts"
| "attachments_loop (c # cs) atts =
     (if truthy (filename c) then
        (case body c of
           None \<Rightarrow> Inl AttributeError
         | Some b \<Rightarrow>
             if truthy (attachmentId b) then
               attachments_loop cs (atts @
                 [\<lparr>att_filename = replace_char (CHR ''/'') ''_'' (case filename c of None \<Rightarrow> [] | Some f \<Rightarrow> f),
                   att_mimeType = (if truthy (mimeType c) then (case mimeType c of None \<Rightarrow> [] | Some t \<Rightarrow> t) else []),
                   part_id = partId c,
                   att_id = attachmentId b,
                   att_data = None\<rparr>])
             else
               attachments_loop cs (atts @
                 [\<lparr>att_filename = replace_char (CHR ''/'') ''_'' (case filename c of None \<Rightarrow> [] | Some f \<Rightarrow> f),
                   att_mimeType = (if truthy (mimeType c) then (case mimeType c of None \<Rightarrow> [] | Some t \<Rightarrow> t) else []),
                   part_id = partId c,
                   att_id = None,
                   att_data = data b\<rparr>]))
      else attachments_loop cs atts)"

definition attachments :: "message_part \<Rightarrow> error + attachment list" where
  "attachments p = (if \<not> has_attachments p then Inr [] else attachments_loop (parts p) [])"

section \<open>The service object\<close>

text \<open>
  \<open>GoogleService\<close> (in \<open>fast_gmail/helpers.py\<close>) wraps the API client. The model keeps
  its \<open>user_id\<close> and \<open>message_id\<close>, the list of the requests executed so far (oldest
  first) and the number of calls of \<open>service.close()\<close>. What a request returns or
  raises is not decided by this module: every operation that executes a request takes
  the outcome of that request as its first argument.
\<close>

record modify_body =
  removeLabelIds :: "string list option"
  addLabelIds :: "string list option"

datatype request =
    AttachmentsGet string string string
  | MessagesModify string "string option" modify_body

record google_service =
  user_id :: string
  message_id :: "string option"
  requests :: "request list"
  closes :: nat

definition execute :: "request \<Rightarrow> google_service \<Rightarrow> google_service" where
  "execute rq g = g\<lparr>requests := requests g @ [rq]\<rparr>"

definition close :: "google_service \<Rightarrow> google_service" where
  "close g = g\<lparr>closes := closes g + 1\<rparr>"

subsection \<open>Attachment.download\<close>

text \<open>
  The answer of the attachment request: \<open>None\<close> or an empty dictionary
  (\<open>NoResponse\<close>, both fail \<open>not res\<close>), or a dictionary with or without a
  \<open>"data"\<close> entry. \<open>b64\<close> is the standard library's \<open>base64.urlsafe_b64decode\<close>.
\<close>

datatype attachment_response = NoResponse | Response "string option"

definition download ::
  "(string \<Rightarrow> error + string) \<Rightarrow> error + attachment_response \<Rightarrow>
   attachment \<times> google_service \<Rightarrow> (error + unit) \<times> attachment \<times> google_service" where
  "download b64 reply s =
     (case s of (a, g) \<Rightarrow>
        (case att_id a of
           None \<Rightarrow> (Inr (), a, g)
         | Some aid \<Rightarrow>
             if aid = [] then (Inr (), a, g)
             else if truthy (att_data a) then (Inr (), a, g)
             else
               (case message_id g of
                  None \<Rightarrow> (Inl TypeError, a, g)
                | Some mid \<Rightarrow>
                    if mid = [] then (Inl TypeError, a, g)
                    else
                      (let g' = close (execute (AttachmentsGet (user_id g) mid aid) g) in
                       case reply of
                         Inl e \<Rightarrow> (Inl e, a, g')
                       | Inr NoResponse \<Rightarrow> (Inr (), a, g')
                       | Inr (Response None) \<Rightarrow> (Inr (), a, g')
                       | Inr (Response (Some d)) \<Rightarrow>
                           (case b64 d of
                              Inl e \<Rightarrow> (Inl e, a, g')
                            | Inr bytes \<Rightarrow> (Inr (), a\<lparr>att_data := Some bytes\<rparr>, g'))))))"

section \<open>Labels\<close>

text \<open>
  Modelled from the spec: the members of the enumeration \<open>Labels\<close> and of
  \<open>LabelAction\<close> are declared in \<open>fast_gmail/helpers.py\<close>, which is not among the
  sources. The label identifiers are the well-known system labels the spec names; no
  result below depends on their spelling. \<open>OTHER\<close> stands for any action that is none
  of the three the \<open>match\<close> statements name.
\<close>

definition UNREAD :: string where "UNREAD = ''UNREAD''"
definition STARRED :: string where "STARRED = ''STARRED''"
definition IMPORTANT :: string where "IMPORTANT = ''IMPORTANT''"
definition SPAM :: string where "SPAM = ''SPAM''"
definition DRAFT :: string where "DRAFT = ''DRAFT''"
definition TRASH :: string where "TRASH = ''TRASH''"
definition INBOX :: string where "INBOX = ''INBOX''"

datatype label_action = ADD | REMOVE | TOGGLE | OTHER

text \<open>
  The flag properties: \<open>False\<close> when \<open>labelIds\<close> is \<open>None\<close> or empty, else whether the
  label is in the list.
\<close>

definition label_flag :: "string \<Rightarrow> message \<Rightarrow> bool" where
  "label_flag l m =
     (case labelIds m of
        None \<Rightarrow> False
      | Some ids \<Rightarrow> if ids = [] then False else if l \<in> set ids then True else False)"

definition is_unread :: "message \<Rightarrow> bool" where "is_unread = label_flag UNREAD"
definition is_starred :: "message \<Rightarrow> bool" where "is_starred = label_flag STARRED"
definition is_important :: "message \<Rightarrow> bool" where "is_important = label_flag IMPORTANT"
definition is_spam :: "message \<Rightarrow> bool" where "is_spam = label_flag SPAM"
definition is_draft :: "message \<Rightarrow> bool" where "is_draft = label_flag DRAFT"
definition is_trash :: "message \<Rightarrow> bool" where "is_trash = label_flag TRASH"

text \<open>
  The two loops that update \<open>self.labelIds\<close> after the request. The test
  \<open>label in self.labelIds\<close> raises \<open>TypeError\<close> when \<open>labelIds\<close> is \<open>None\<close>;
  \<open>list.remove\<close> deletes the first occurrence. The lists \<open>add\<close> and \<open>remove\<close> are
  taken to be objects other than the message's own \<open>labelIds\<close> list, as they are in
  every call the module itself makes. A caller that passes the message's own list
  (\<open>msg.remove_labels(msg.labelIds)\<close>) makes Python iterate over the list it is
  shrinking, which skips elements; that call is \<open>remove_own_labels\<close> below.
\<close>

fun append_new :: "string list \<Rightarrow> string list option \<Rightarrow> error + string list option" where
  "append_new [] ids = Inr ids"
| "append_new (l # ls) None = Inl TypeError"
| "append_new (l # ls) (Some xs) = append_new ls (Some (if l \<notin> set xs then xs @ [l] else xs))"

fun remove_present :: "string list \<Rightarrow> string list option \<Rightarrow> error + string list option" where
  "remove_present [] ids = Inr ids"
| "remove_present (l # ls) None = Inl TypeError"
| "remove_present (l # ls) (Some xs) = remove_present ls (Some (if l \<in> set xs then remove1 l xs else xs))"

text \<open>The first \<open>match\<close>: the request body. Iterating over \<open>None\<close> raises \<open>TypeError\<close>.\<close>

definition modify_payload ::
  "label_action \<Rightarrow> string list option \<Rightarrow> string list option \<Rightarrow> error + modify_body option" where
  "modify_payload action add remove =
     (case action of
        REMOVE \<Rightarrow>
          (case remove of
             None \<Rightarrow> Inl TypeError
           | Some r \<Rightarrow> Inr (Some \<lparr>removeLabelIds = Some r, addLabelIds = None\<rparr>))
      | ADD \<Rightarrow>
          (case add of
             None \<Rightarrow> Inl TypeError
           | Some a \<Rightarrow> Inr (Some \<lparr>removeLabelIds = None, addLabelIds = Some a\<rparr>))
      | TOGGLE \<Rightarrow>
          (case remove of
             None \<Rightarrow> Inl TypeError
           | Some r \<Rightarrow>
               (case add of
                  None \<Rightarrow> Inl TypeError
                | Some a \<Rightarrow> Inr (Some \<lparr>removeLabelIds = Some r, addLabelIds = Some a\<rparr>)))
      | OTHER \<Rightarrow> Inr None)"

text \<open>
  The second \<open>match\<close>, run after the request has returned: the updated list and the
  value \<open>_edit_labels\<close> returns (its wildcard case returns \<open>False\<close>).
\<close>

definition apply_locally ::
  "label_action \<Rightarrow> string list \<Rightarrow> string list \<Rightarrow> string list option \<Rightarrow>
   error + bool \<times> string list option" where
  "apply_locally action add remove ids =
     (case action of
        ADD \<Rightarrow>
          (case append_new add ids of
             Inl e \<Rightarrow> Inl e
           | Inr ids' \<Rightarrow> Inr (True, ids'))
      | REMOVE \<Rightarrow>
          (case remove_present remove ids of
             Inl e \<Rightarrow> Inl e
           | Inr ids' \<Rightarrow> Inr (True, ids'))
      | TOGGLE \<Rightarrow>
          (case append_new add ids of
             Inl e \<Rightarrow> Inl e
           | Inr ids' \<Rightarrow>
               (case remove_present remove ids' of
                  Inl e \<Rightarrow> Inl e
                | Inr ids'' \<Rightarrow> Inr (True, ids'')))
      | OTHER \<Rightarrow> Inr (False, ids))"

text \<open>
  \<open>_edit_labels\<close>. \<open>reply\<close> is the outcome of \<open>modify(...).execute()\<close>: \<open>Inl e\<close> when it
  raises \<open>e\<close>. The state is the message and the service. An exception raised inside
  the \<open>try\<close> leaves through \<open>finally\<close>, which closes the service.
\<close>

type_synonym mailbox = "message \<times> google_service"

definition edit_labels ::
  "error + unit \<Rightarrow> label_action \<Rightarrow> string list option \<Rightarrow> string list option \<Rightarrow>
   mailbox \<Rightarrow> (error + bool) \<times> mailbox" where
  "edit_labels reply action add remove s =
     (case s of (m, g) \<Rightarrow>
        (case modify_payload action add remove of
           Inl e \<Rightarrow> (Inl e, m, g)
         | Inr None \<Rightarrow> (Inr False, m, g)
         | Inr (Some pl) \<Rightarrow>
             (let g' = close (execute (MessagesModify (user_id g) (msg_id m) pl) g) in
              case reply of
                Inl e \<Rightarrow> (Inl e, m, g')
              | Inr _ \<Rightarrow>
                  (case apply_locally action
                          (case add of None \<Rightarrow> [] | Some a \<Rightarrow> a)
                          (case remove of None \<Rightarrow> [] | Some r \<Rightarrow> r) (labelIds m) of
                     Inl e \<Rightarrow> (Inl e, m, g')
                   | Inr (returned, ids) \<Rightarrow> (Inr returned, m\<lparr>labelIds := ids\<rparr>, g')))))"

definition add_label :: "error + unit \<Rightarrow> string \<Rightarrow> mailbox \<Rightarrow> (error + bool) \<times> mailbox" where
  "add_label reply l = edit_labels reply ADD (Some [l]) (Some [])"

definition add_labels :: "error + unit \<Rightarrow> string list \<Rightarrow> mailbox \<Rightarrow> (error + bool) \<times> mailbox" where
  "add_labels reply ls = edit_labels reply ADD (Some ls) (Some [])"

definition remove_label :: "error + unit \<Rightarrow> string \<Rightarrow> mailbox \<Rightarrow> (error + bool) \<times> mailbox" where
  "remove_label reply l = edit_labels reply REMOVE (Some []) (Some [l])"

definition remove_labels :: "error + unit \<Rightarrow> string list \<Rightarrow> mailbox \<Rightarrow> (error + bool) \<times> mailbox" where
  "remove_labels reply ls = edit_labels reply REMOVE (Some []) (Some ls)"

definition modify_labels ::
  "error + unit \<Rightarrow> string list option \<Rightarrow> string list option \<Rightarrow> mailbox \<Rightarrow> (error + bool) \<times> mailbox" where
  "modify_labels reply labels_to_add labels_to_remove =
     edit_labels reply TOGGLE labels_to_add labels_to_remove"

text \<open>
  \<open>msg.remove_labels(msg.labelIds)\<close>: the argument is the message's own list. The
  request body is a copy made before the request; the loop \<open>for label in remove\<close>
  then reads position \<open>i\<close> of the list that \<open>self.labelIds.remove(label)\<close> is
  shrinking, and stops when \<open>i\<close> reaches its current length. With \<open>labelIds\<close>
  \<open>None\<close> the copy raises \<open>TypeError\<close> before any request.
\<close>

function remove_while_iterating :: "nat \<Rightarrow> string list \<Rightarrow> string list" where
  "remove_while_iterating i xs =
     (if i < length xs then remove_while_iterating (Suc i) (remove1 (xs ! i) xs) else xs)"
  by pat_completeness auto
termination
  by (relation "measure (\<lambda>(i, xs). length xs - i)") (auto simp: length_remove1)

definition remove_own_labels :: "error + unit \<Rightarrow> mailbox \<Rightarrow> (error + bool) \<times> mailbox" where
  "remove_own_labels reply s =
     (case s of (m, g) \<Rightarrow>
        (case labelIds m of
           None \<Rightarrow> (Inl TypeError, m, g)
         | Some xs \<Rightarrow>
             (let g' = close (execute (MessagesModify (user_id g) (msg_id m)
                                \<lparr>removeLabelIds = Some xs, addLabelIds = None\<rparr>) g) in
              case reply of
                Inl e \<Rightarrow> (Inl e, m, g')
              | Inr _ \<Rightarrow> (Inr True, m\<lparr>labelIds := Some (remove_while_iterating 0 xs)\<rparr>, g'))))"

text \<open>
  The \<open>mark_*\<close>, \<open>move_*\<close> and \<open>toggle_*\<close> properties call one of the methods above,
  drop its boolean and return \<open>self\<close>: the message of the resulting state.
\<close>

definition returning_self :: "(error + bool) \<times> mailbox \<Rightarrow> (error + unit) \<times> mailbox" where
  "returning_self r = (case r of (Inl e, s) \<Rightarrow> (Inl e, s) | (Inr _, s) \<Rightarrow> (Inr (), s))"

definition mark_as_read :: "error + unit \<Rightarrow> mailbox \<Rightarrow> (error + unit) \<times> mailbox" where
  "mark_as_read reply s = returning_self (remove_label reply UNREAD s)"

definition mark_as_unread :: "error + unit \<Rightarrow> mailbox \<Rightarrow> (error + unit) \<times> mailbox" where
  "mark_as_unread reply s = returning_self (add_label reply UNREAD s)"

definition toggle_read_unread :: "error + unit \<Rightarrow> mailbox \<Rightarrow> (error + unit) \<times> mailbox" where
  "toggle_read_unread reply s =
     (if is_unread (fst s) then returning_self (remove_label reply UNREAD s)
      else returning_self (add_label reply UNREAD s))"

definition mark_spam :: "error + unit \<Rightarrow> mailbox \<Rightarrow> (error + unit) \<times> mailbox" where
  "mark_spam reply s =
     returning_self (edit_labels reply TOGGLE (Some [SPAM]) (Some [TRASH, INBOX, STARRED, IMPORTANT]) s)"

definition mark_not_spam :: "error + unit \<Rightarrow> mailbox \<Rightarrow> (error + unit) \<times> mailbox" where
  "mark_not_spam reply s = returning_self (edit_labels reply TOGGLE (Some [INBOX]) (Some [SPAM]) s)"

definition toggle_spam :: "error + unit \<Rightarrow> mailbox \<Rightarrow> (error + unit) \<times> mailbox" where
  "toggle_spam reply s = (if is_spam (fst s) then mark_not_spam reply s else mark_spam reply s)"

definition move_to_trash :: "error + unit \<Rightarrow> mailbox \<Rightarrow> (error + unit) \<times> mailbox" where
  "move_to_trash reply s =
     returning_self (edit_labels reply TOGGLE (Some [TRASH]) (Some [INBOX, STARRED, IMPORTANT]) s)"

definition move_from_trash :: "error + unit \<Rightarrow> mailbox \<Rightarrow> (error + unit) \<times> mailbox" where
  "move_from_trash reply s = returning_self (edit_labels reply TOGGLE (Some [INBOX]) (Some [TRASH]) s)"

definition toggle_trash :: "error + unit \<Rightarrow> mailbox \<Rightarrow> (error + unit) \<times> mailbox" where
  "toggle_trash reply s = (if is_trash (fst s) then move_from_trash reply s else move_to_trash reply s)"

definition mark_important :: "error + unit \<Rightarrow> mailbox \<Rightarrow> (error + unit) \<times> mailbox" where
  "mark_important reply s = returning_self (add_label reply IMPORTANT s)"

definition mark_not_important :: "error + unit \<Rightarrow> mailbox \<Rightarrow> (error + unit) \<times> mailbox" where
  "mark_not_important reply s = returning_self (remove_label reply IMPORTANT s)"

definition toggle_important :: "error + unit \<Rightarrow> mailbox \<Rightarrow> (error + unit) \<times> mailbox" where
  "toggle_important reply s =
     (if is_important (fst s) then mark_not_important reply s else mark_important reply s)"

definition mark_starred :: "error + unit \<Rightarrow> mailbox \<Rightarrow> (error + unit) \<times> mailbox" where
  "mark_starred reply s = returning_self (add_label reply STARRED s)"

definition mark_not_starred :: "error + unit \<Rightarrow> mailbox \<Rightarrow> (error + unit) \<times> mailbox" where
  "mark_not_starred reply s = returning_self (remove_label reply STARRED s)"

definition toggle_starred :: "error + unit \<Rightarrow> mailbox \<Rightarrow> (error + unit) \<times> mailbox" where
  "toggle_starred reply s =
     (if is_starred (fst s) then mark_not_starred reply s else mark_starred reply s)"

section \<open>Views derived from the headers\<close>



definition message_headers :: "message \<Rightarrow> error + message_header list option" where
  "message_headers m =
     (case payload m of
        Unset \<Rightarrow> Inl AttributeError
      | NoPayload \<Rightarrow> Inr None
      | Payload p \<Rightarrow> if headers p = [] then Inr None else Inr (Some (headers p)))"

definition sender_header :: "message \<Rightarrow> error + string option" where
  "sender_header m =
     (case message_headers m of
        Inl e \<Rightarrow> Inl e
      | Inr None \<Rightarrow> Inr None
      | Inr (Some hs) \<Rightarrow>
          (case find (\<lambda>h. header_name h = ''From'') hs of
             None \<Rightarrow> Inr None
           | Some h \<Rightarrow> Inr (Some (header_value h))))"

definition dquote :: char where
  "dquote = CHR 0x22"

definition sender :: "message \<Rightarrow> error + string option" where
  "sender m =
     (case sender_header m of
        Inl e \<Rightarrow> Inl e
      | Inr None \<Rightarrow> Inr None
      | Inr (Some s) \<Rightarrow>
          if s = [] then Inr None
          else if str_in [dquote] s then
            (case str_split [dquote] s of
               Inl e \<Rightarrow> Inl e
             | Inr ps \<Rightarrow>
                 (case index ps 1 of
                    Inl e \<Rightarrow> Inl e
                  | Inr t \<Rightarrow> Inr (Some t)))
          else if str_in ''<'' s then
            (case str_split ''<'' s of
               Inl e \<Rightarrow> Inl e
             | Inr ps \<Rightarrow>
                 (case index ps 1 of
                    Inl e \<Rightarrow> Inl e
                  | Inr t \<Rightarrow> Inr (Some (replace_char (CHR ''>'') [] t))))
          else Inr (Some s))"





section \<open>Notions used in the statements, and sample inputs\<close>

subsection \<open>Content extraction\<close>

text \<open>
  The body data that \<open>_extract_content\<close> decodes for a part: present and non-empty.
\<close>

definition part_data :: "message_part \<Rightarrow> string option" where
  "part_data c =
     (case body c of
        None \<Rightarrow> None
      | Some b \<Rightarrow> (case data b of None \<Rightarrow> None | Some d \<Rightarrow> if d = [] then None else Some d))"



definition sample_decoder :: "string \<Rightarrow> error + string" where
  "sample_decoder d = (if d = ''aGk='' then Inr ''hi'' else Inl DecodeError)"





text \<open>
  An empty text part as the API delivers it: a body object of size 0 without data, no
  children; and a message that has it as payload.
\<close>

definition api_empty_part :: message_part where
  "api_empty_part =
     MessagePart (Some ''text/plain'') [] [] (Some ''0'') None
       (Some \<lparr>body_size = 0, attachmentId = None, data = None\<rparr>)"

definition api_empty_message :: message where
  "api_empty_message = \<lparr>msg_id = Some ''m3'', payload = Payload api_empty_part, labelIds = None\<rparr>"

subsection \<open>Attachments\<close>

text \<open>A part with a non-empty filename.\<close>

definition has_filename :: "message_part \<Rightarrow> bool" where
  "has_filename c = (case filename c of None \<Rightarrow> False | Some f \<Rightarrow> f \<noteq> [])"

text \<open>
  The attachment the spec describes for a child: the filename with every slash turned
  into an underscore, the type or the empty string, and either the identifier of the
  body (when it has a non-empty one) or the inline data of the body.
\<close>

definition attachment_of :: "message_part \<Rightarrow> attachment" where
  "attachment_of c =
     \<lparr>att_filename = map (\<lambda>x. if x = CHR ''/'' then CHR ''_'' else x)
                       (case filename c of None \<Rightarrow> [] | Some f \<Rightarrow> f),
      att_mimeType = (case mimeType c of None \<Rightarrow> [] | Some t \<Rightarrow> t),
      part_id = partId c,
      att_id = (case body c of
                  None \<Rightarrow> None
                | Some b \<Rightarrow> if truthy (attachmentId b) then attachmentId b else None),
      att_data = (case body c of
                    None \<Rightarrow> None
                  | Some b \<Rightarrow> if truthy (attachmentId b) then None else data b)\<rparr>"

text \<open>A part cut off from its own children.\<close>

definition without_children :: "message_part \<Rightarrow> message_part" where
  "without_children c = MessagePart (mimeType c) (headers c) [] (partId c) (filename c) (body c)"

definition png_child :: message_part where
  "png_child = MessagePart (Some ''image/png'') [] [] (Some ''1'') (Some ''a/b.png'')
                 (Some \<lparr>body_size = 10, attachmentId = Some ''att-1'', data = None\<rparr>)"

definition inline_child :: message_part where
  "inline_child = MessagePart None [] [png_child] (Some ''2'') (Some ''notes.txt'')
                 (Some \<lparr>body_size = 4, attachmentId = None, data = Some ''aGk=''\<rparr>)"

definition unnamed_child :: message_part where
  "unnamed_child = MessagePart (Some ''text/plain'') [] [] (Some ''0'') None
                 (Some \<lparr>body_size = 4, attachmentId = None, data = Some ''aGk=''\<rparr>)"

definition bodiless_child :: message_part where
  "bodiless_child = MessagePart (Some ''image/png'') [] [] (Some ''1'') (Some ''a/b.png'') None"

definition parent_of :: "message_part list \<Rightarrow> message_part" where
  "parent_of cs = MessagePart (Some ''multipart/mixed'') [] cs None None None"

subsection \<open>Label edits\<close>

text \<open>
  An operation that takes the outcome of its request fails with the remote call: when
  the request raises \<open>e\<close> the operation raises \<open>e\<close> and the message is as it was.
\<close>

definition fails_with_remote :: "(error + unit \<Rightarrow> mailbox \<Rightarrow> (error + 'a) \<times> mailbox) \<Rightarrow> bool" where
  "fails_with_remote f = (\<forall>e s. fst (f (Inl e) s) = Inl e \<and> fst (snd (f (Inl e) s)) = fst s)"

text \<open>
  An operation changes \<open>labelIds\<close> only on success: whenever the list differs afterwards,
  the request had returned and exactly one request was executed.
\<close>

definition changes_only_on_success :: "(error + unit \<Rightarrow> mailbox \<Rightarrow> (error + 'a) \<times> mailbox) \<Rightarrow> bool" where
  "changes_only_on_success f =
     (\<forall>reply s. labelIds (fst (snd (f reply s))) \<noteq> labelIds (fst s) \<longrightarrow>
        reply = Inr () \<and> length (requests (snd (snd (f reply s)))) = Suc (length (requests (snd s))))"

text \<open>Both together.\<close>

definition remote_first :: "(error + unit \<Rightarrow> mailbox \<Rightarrow> (error + 'a) \<times> mailbox) \<Rightarrow> bool" where
  "remote_first f = (fails_with_remote f \<and> changes_only_on_success f)"

text \<open>Sample states.\<close>

definition service0 :: google_service where
  "service0 = \<lparr>user_id = ''me'', message_id = Some ''m1'', requests = [], closes = 0\<rparr>"

definition unlabelled_message :: message where
  "unlabelled_message = \<lparr>msg_id = Some ''m1'', payload = Unset, labelIds = None\<rparr>"

definition inbox_message :: message where
  "inbox_message = \<lparr>msg_id = Some ''m1'', payload = Unset, labelIds = Some [INBOX, UNREAD]\<rparr>"

subsection \<open>Downloads\<close>

text \<open>
  A stand-in for \<open>base64.urlsafe_b64decode\<close> in closed examples; it knows two correct
  pairs (the empty text, and \<open>aGk=\<close> for \<open>hi\<close>).
\<close>

definition sample_b64 :: "string \<Rightarrow> error + string" where
  "sample_b64 d = (if d = [] then Inr [] else if d = ''aGk='' then Inr ''hi'' else Inl DecodeError)"

definition lazy_attachment :: attachment where
  "lazy_attachment = \<lparr>att_filename = ''a_b.png'', att_mimeType = ''image/png'', part_id = Some ''1'',
                        att_id = Some ''att-1'', att_data = None\<rparr>"

subsection \<open>Header views\<close>

text \<open>
  The text after the first occurrence of a character, and the text up to the next
  occurrence of a character (or to the end).
\<close>

definition after_first :: "char \<Rightarrow> string \<Rightarrow> string" where
  "after_first c s = tl (dropWhile (\<lambda>x. x \<noteq> c) s)"

definition up_to :: "char \<Rightarrow> string \<Rightarrow> string" where
  "up_to c s = takeWhile (\<lambda>x. x \<noteq> c) s"

text \<open>Sample messages: a payload that has the given headers and nothing else.\<close>

definition message_with_headers :: "message_header list \<Rightarrow> message" where
  "message_with_headers hs =
     \<lparr>msg_id = Some ''m1'', payload = Payload (MessagePart (Some ''text/plain'') hs [] None None None),
      labelIds = Some []\<rparr>"

definition from_header :: "string \<Rightarrow> message_header" where
  "from_header v = \<lparr>header_name = ''From'', header_value = v\<rparr>"







section \<open>Content extraction: keys and errors\<close>








text \<open>
  Inside the traversal a part without body data (no body, or a body whose data is
  absent or empty) and without children never raises, for every dictionary built so
  far and every decoder: every other key keeps its entry, and the part's own type,
  text or not, holds what it held before, or the empty list when it is new.
\<close>

lemma empty_part_in_traversal:
  assumes "part_data p = None" and "parts p = []"
  shows "\<exists>r'. extract_content dec p r = Inr r' \<and>
              (\<forall>k. k \<noteq> mimeType p \<longrightarrow> r' k = r k) \<and>
              r' (mimeType p) = Some (case r (mimeType p) of None \<Rightarrow> [] | Some xs \<Rightarrow> xs)"
  using assms
  by (cases p) (auto simp: part_data_def Let_def split: option.splits if_splits)

text \<open>
  As the payload itself, a part without children and without body gives \<open>None\<close>; with
  a body object that has no data the last \<open>return\<close> of \<open>_content\<close> decodes \<open>None\<close>
  and raises \<open>TypeError\<close>, whatever the type of the part and the decoder.
\<close>

lemma payload_without_body:
  assumes "payload m = Payload p" and "parts p = []" and "body p = None"
  shows "content dec m = Inr None"
  using assms by (simp add: content_def whole_body_def)

lemma payload_without_data_raises:
  assumes "payload m = Payload p" and "parts p = []" and "body p = Some b" and "data b = None"
  shows "content dec m = Inl TypeError"
  using assms by (simp add: content_def whole_body_def)

text \<open>
  C6 at a message whose payload is an empty text part with a body object and no data
  (\<open>{"mimeType": "text/plain", "body": {"size": 0}}\<close>): \<open>_content\<close> raises
  \<open>TypeError\<close>, although the same part inside a traversal is passed over without
  error and only gets its empty entry.
\<close>

theorem empty_payload_with_body_raises:
  "content sample_decoder api_empty_message = Inl TypeError \<and>
   extract_content sample_decoder api_empty_part Map.empty = Inr [Some ''text/plain'' \<mapsto> []]"
  by (simp add: content_def whole_body_def api_empty_message_def api_empty_part_def text_types_def)

section \<open>Attachments of a part\<close>

lemma replace_char_map: "replace_char old [new] s = map (\<lambda>x. if x = old then new else x) s"
  by (induction s) (simp_all add: replace_char_def)

lemma truthy_has_filename: "truthy (filename c) = has_filename c"
  by (cases "filename c") (simp_all add: has_filename_def)

lemma attachments_loop_ok:
  "\<forall>c \<in> set cs. has_filename c \<longrightarrow> body c \<noteq> None \<Longrightarrow>
   attachments_loop cs atts = Inr (atts @ map attachment_of (filter has_filename cs))"
proof (induction cs arbitrary: atts)
  case Nil
  then show ?case by simp
next
  case (Cons c cs)
  from Cons.prems have rest: "\<forall>c \<in> set cs. has_filename c \<longrightarrow> body c \<noteq> None" by simp
  show ?case
  proof (cases "has_filename c")
    case True
    with Cons.prems obtain b where b: "body c = Some b" by auto
    from True obtain f where f: "filename c = Some f" "f \<noteq> []"
      by (auto simp: has_filename_def split: option.splits)
    have mt: "(if truthy (mimeType c) then (case mimeType c of None \<Rightarrow> [] | Some t \<Rightarrow> t) else []) =
              (case mimeType c of None \<Rightarrow> [] | Some t \<Rightarrow> t)"
      by (cases "mimeType c") auto
    show ?thesis
      using True b f
      by (simp add: Cons.IH[OF rest] truthy_has_filename[symmetric] attachment_of_def mt
            replace_char_map del: truthy.simps)
  next
    case False
    then show ?thesis
      by (simp add: Cons.IH[OF rest] truthy_has_filename)
  qed
qed

lemma attachments_loop_error:
  "\<exists>c \<in> set cs. has_filename c \<and> body c = None \<Longrightarrow> attachments_loop cs atts = Inl AttributeError"
proof (induction cs arbitrary: atts)
  case Nil
  then show ?case by simp
next
  case (Cons c cs)
  show ?case
  proof (cases "has_filename c \<and> body c = None")
    case True
    then show ?thesis by (simp add: truthy_has_filename)
  next
    case False
    with Cons.prems have "\<exists>c \<in> set cs. has_filename c \<and> body c = None" by auto
    from Cons.IH[OF this] show ?thesis
      by (auto simp: truthy_has_filename split: option.splits)
  qed
qed

lemma no_filename_no_attachments:
  "\<not> has_attachments p \<Longrightarrow> filter has_filename (parts p) = []"
  by (auto simp: has_attachments_def truthy_has_filename list_ex_iff filter_empty_conv split: if_splits)

lemma attachments_char:
  "attachments p =
     (if \<exists>c \<in> set (parts p). has_filename c \<and> body c = None then Inl AttributeError
      else Inr (map attachment_of (filter has_filename (parts p))))"
proof (cases "has_attachments p")
  case False
  then have "filter has_filename (parts p) = []" by (rule no_filename_no_attachments)
  moreover from this have "\<not> (\<exists>c \<in> set (parts p). has_filename c \<and> body c = None)"
    by (auto simp: filter_empty_conv)
  ultimately show ?thesis using False by (simp add: attachments_def)
next
  case True
  show ?thesis
  proof (cases "\<exists>c \<in> set (parts p). has_filename c \<and> body c = None")
    case True
    with \<open>has_attachments p\<close> show ?thesis
      by (simp add: attachments_def attachments_loop_error)
  next
    case False
    then have "\<forall>c \<in> set (parts p). has_filename c \<longrightarrow> body c \<noteq> None" by auto
    from attachments_loop_ok[OF this, of "[]"] False \<open>has_attachments p\<close> show ?thesis
      by (simp add: attachments_def)
  qed
qed

lemma without_children_same:
  "has_filename (without_children c) = has_filename c"
  "body (without_children c) = body c"
  "attachment_of (without_children c) = attachment_of c"
  by (simp_all add: without_children_def has_filename_def attachment_of_def)

text \<open>
  C9, as the spec states it for every part, fails: for a direct child with a filename
  and no body no attachment is built, the property raises.
\<close>

theorem attachment_without_body_raises:
  "attachments (parent_of [bodiless_child]) = Inl AttributeError"
  by (simp add: attachments_def has_attachments_def parent_of_def bodiless_child_def)

text \<open>
  C9, amended: for every part whose direct children with a non-empty filename all have
  a body, \<open>attachments\<close> returns one attachment per direct child with a non-empty
  filename, in order: the filename with every slash replaced by an underscore (so
  \<open>a/b.png\<close> becomes \<open>a_b.png\<close>), the child's type or the empty string, the child's
  \<open>partId\<close>, and the body's \<open>attachmentId\<close> as \<open>id\<close> when it is non-empty, otherwise the
  body's inline data. Deeper descendants do not count: cutting every child off from its
  own children leaves the result as it is.
\<close>

theorem attachments_of_direct_children:
  assumes "\<forall>c \<in> set (parts p). has_filename c \<longrightarrow> body c \<noteq> None"
  shows "attachments p = Inr (map attachment_of (filter has_filename (parts p)))
         \<and> attachments (MessagePart (mimeType p) (headers p) (map without_children (parts p))
                          (partId p) (filename p) (body p)) = attachments p
         \<and> att_filename (attachment_of png_child) = ''a_b.png''"
proof -
  have "attachments p = Inr (map attachment_of (filter has_filename (parts p)))"
    using assms by (auto simp: attachments_char)
  moreover have "attachments (MessagePart (mimeType p) (headers p) (map without_children (parts p))
                          (partId p) (filename p) (body p)) = attachments p"
    by (simp add: attachments_char without_children_same filter_map comp_def)
  moreover have "att_filename (attachment_of png_child) = ''a_b.png''"
    by (simp add: attachment_of_def png_child_def)
  ultimately show ?thesis by simp
qed

theorem attachments_of_direct_children_witness:
  "(has_filename png_child \<and> body png_child \<noteq> None) \<and>
   (has_filename inline_child \<and> body inline_child \<noteq> None) \<and>
   \<not> has_filename unnamed_child \<and>
   attachments (parent_of [png_child, unnamed_child, inline_child]) =
     Inr [\<lparr>att_filename = ''a_b.png'', att_mimeType = ''image/png'', part_id = Some ''1'',
            att_id = Some ''att-1'', att_data = None\<rparr>,
          \<lparr>att_filename = ''notes.txt'', att_mimeType = [], part_id = Some ''2'',
            att_id = None, att_data = Some ''aGk=''\<rparr>]"
  using attachments_of_direct_children [of "parent_of [png_child, unnamed_child, inline_child]"]
  by (simp add: parent_of_def png_child_def inline_child_def unnamed_child_def has_filename_def
        attachment_of_def)

text \<open>
  C10: \<open>attachments\<close> raises (an \<open>AttributeError\<close>, from \<open>part.body.attachmentId\<close>)
  exactly when some direct child has a non-empty filename and no body; when every
  direct child with a filename has a body it returns a list.
\<close>

theorem attachments_raise_iff_named_child_lacks_body:
  "case attachments p of
     Inl e \<Rightarrow> e = AttributeError \<and> (\<exists>c \<in> set (parts p). has_filename c \<and> body c = None)
   | Inr atts \<Rightarrow> \<forall>c \<in> set (parts p). has_filename c \<longrightarrow> body c \<noteq> None"
  by (auto simp: attachments_char)

theorem attachments_raise_iff_named_child_lacks_body_witness:
  "attachments (parent_of [png_child, bodiless_child]) = Inl AttributeError \<and>
   has_filename bodiless_child \<and> body bodiless_child = None \<and>
   (\<exists>atts. attachments (parent_of [png_child, unnamed_child]) = Inr atts)"
  using attachments_raise_iff_named_child_lacks_body [of "parent_of [png_child, bodiless_child]"]
    attachments_raise_iff_named_child_lacks_body [of "parent_of [png_child, unnamed_child]"]
  by (simp add: parent_of_def png_child_def bodiless_child_def unnamed_child_def has_filename_def
        attachments_def has_attachments_def)

section \<open>Label edits\<close>

lemma edit_labels_failure:
  "edit_labels (Inl e) action add remove (m, g) =
     (case modify_payload action add remove of
        Inl e' \<Rightarrow> (Inl e', m, g)
      | Inr None \<Rightarrow> (Inr False, m, g)
      | Inr (Some pl) \<Rightarrow> (Inl e, m, close (execute (MessagesModify (user_id g) (msg_id m) pl) g)))"
  by (simp add: edit_labels_def split: sum.splits option.splits)

lemma edit_labels_changes:
  assumes "labelIds (fst (snd (edit_labels reply action add remove s))) \<noteq> labelIds (fst s)"
  shows "reply = Inr () \<and>
         length (requests (snd (snd (edit_labels reply action add remove s)))) = Suc (length (requests (snd s)))"
  using assms
  by (cases s; cases reply)
     (auto simp: edit_labels_def Let_def close_def execute_def split: sum.splits option.splits)

lemma edit_fails_with_remote:
  "modify_payload action add remove = Inr (Some pl) \<Longrightarrow>
   fails_with_remote (\<lambda>reply. edit_labels reply action add remove)"
  by (simp add: fails_with_remote_def edit_labels_failure split_paired_all)

lemma edit_changes_only_on_success:
  "changes_only_on_success (\<lambda>reply. edit_labels reply action add remove)"
  unfolding changes_only_on_success_def using edit_labels_changes by blast

lemma returning_self_fst: "fst (returning_self r) = Inl e \<longleftrightarrow> fst r = Inl e"
  by (cases r; cases "fst r") (auto simp: returning_self_def)

lemma returning_self_snd: "snd (returning_self r) = snd r"
  by (cases r; cases "fst r") (auto simp: returning_self_def)

lemma self_fails_with_remote:
  "fails_with_remote f \<Longrightarrow> fails_with_remote (\<lambda>reply s. returning_self (f reply s))"
  by (simp add: fails_with_remote_def returning_self_fst returning_self_snd)

lemma self_changes_only_on_success:
  "changes_only_on_success f \<Longrightarrow> changes_only_on_success (\<lambda>reply s. returning_self (f reply s))"
  by (simp add: changes_only_on_success_def returning_self_snd)

lemma if_fails_with_remote:
  "fails_with_remote f \<Longrightarrow> fails_with_remote g \<Longrightarrow>
   fails_with_remote (\<lambda>reply s. if c s then f reply s else g reply s)"
  by (simp add: fails_with_remote_def)

lemma if_changes_only_on_success:
  "changes_only_on_success f \<Longrightarrow> changes_only_on_success g \<Longrightarrow>
   changes_only_on_success (\<lambda>reply s. if c s then f reply s else g reply s)"
  by (simp add: changes_only_on_success_def)

lemma basic_fail:
  "fails_with_remote (\<lambda>reply. add_label reply l)"
  "fails_with_remote (\<lambda>reply. add_labels reply ls)"
  "fails_with_remote (\<lambda>reply. remove_label reply l)"
  "fails_with_remote (\<lambda>reply. remove_labels reply ls)"
  "fails_with_remote (\<lambda>reply. modify_labels reply (Some a) (Some r))"
  unfolding add_label_def add_labels_def remove_label_def remove_labels_def modify_labels_def
  by (rule edit_fails_with_remote, simp add: modify_payload_def)+

lemma basic_change:
  "changes_only_on_success (\<lambda>reply. add_label reply l)"
  "changes_only_on_success (\<lambda>reply. add_labels reply ls)"
  "changes_only_on_success (\<lambda>reply. remove_label reply l)"
  "changes_only_on_success (\<lambda>reply. remove_labels reply ls)"
  "changes_only_on_success (\<lambda>reply. modify_labels reply a r)"
  unfolding add_label_def add_labels_def remove_label_def remove_labels_def modify_labels_def
  by (rule edit_changes_only_on_success)+

lemma marks_fail:
  "fails_with_remote mark_as_read"
  "fails_with_remote mark_as_unread"
  "fails_with_remote mark_important"
  "fails_with_remote mark_not_important"
  "fails_with_remote mark_starred"
  "fails_with_remote mark_not_starred"
  "fails_with_remote mark_spam"
  "fails_with_remote mark_not_spam"
  "fails_with_remote move_to_trash"
  "fails_with_remote move_from_trash"
  using self_fails_with_remote[OF basic_fail(1)] self_fails_with_remote[OF basic_fail(3)]
    self_fails_with_remote[OF edit_fails_with_remote]
  by (simp_all add: mark_as_read_def[abs_def] mark_as_unread_def[abs_def] mark_important_def[abs_def]
      mark_not_important_def[abs_def] mark_starred_def[abs_def] mark_not_starred_def[abs_def]
      mark_spam_def[abs_def] mark_not_spam_def[abs_def] move_to_trash_def[abs_def]
      move_from_trash_def[abs_def] modify_payload_def)

lemma marks_change:
  "changes_only_on_success mark_as_read"
  "changes_only_on_success mark_as_unread"
  "changes_only_on_success mark_important"
  "changes_only_on_success mark_not_important"
  "changes_only_on_success mark_starred"
  "changes_only_on_success mark_not_starred"
  "changes_only_on_success mark_spam"
  "changes_only_on_success mark_not_spam"
  "changes_only_on_success move_to_trash"
  "changes_only_on_success move_from_trash"
  using self_changes_only_on_success[OF basic_change(1)] self_changes_only_on_success[OF basic_change(3)]
    self_changes_only_on_success[OF edit_changes_only_on_success]
  by (simp_all add: mark_as_read_def[abs_def] mark_as_unread_def[abs_def] mark_important_def[abs_def]
      mark_not_important_def[abs_def] mark_starred_def[abs_def] mark_not_starred_def[abs_def]
      mark_spam_def[abs_def] mark_not_spam_def[abs_def] move_to_trash_def[abs_def]
      move_from_trash_def[abs_def])

lemma toggles_fail:
  "fails_with_remote toggle_read_unread"
  "fails_with_remote toggle_spam"
  "fails_with_remote toggle_trash"
  "fails_with_remote toggle_important"
  "fails_with_remote toggle_starred"
  using marks_fail
  by (simp_all add: fails_with_remote_def toggle_read_unread_def toggle_spam_def toggle_trash_def
      toggle_important_def toggle_starred_def mark_as_read_def mark_as_unread_def)

lemma toggles_change:
  "changes_only_on_success toggle_read_unread"
  "changes_only_on_success toggle_spam"
  "changes_only_on_success toggle_trash"
  "changes_only_on_success toggle_important"
  "changes_only_on_success toggle_starred"
  using marks_change
  by (simp_all add: changes_only_on_success_def toggle_read_unread_def toggle_spam_def toggle_trash_def
      toggle_important_def toggle_starred_def mark_as_read_def mark_as_unread_def)

text \<open>
  C2: every label operation is \<open>remote_first\<close>: when its request raises, the operation
  raises the same exception and the message, \<open>labelIds\<close> included, is as it was; and
  \<open>labelIds\<close> differs afterwards only if the request had returned (one request having
  been executed). For \<open>_edit_labels\<close> itself, with any action and lists: the message is
  unchanged when the request raises, the exception is the request's whenever a request
  is made, and \<open>labelIds\<close> changes only after the request has returned.
\<close>

theorem labels_change_only_after_remote_success:
  "remote_first (\<lambda>reply. add_label reply l) \<and>
   remote_first (\<lambda>reply. add_labels reply ls) \<and>
   remote_first (\<lambda>reply. remove_label reply l) \<and>
   remote_first (\<lambda>reply. remove_labels reply ls) \<and>
   remote_first (\<lambda>reply. modify_labels reply (Some a) (Some r)) \<and>
   remote_first mark_as_read \<and> remote_first mark_as_unread \<and> remote_first toggle_read_unread \<and>
   remote_first mark_spam \<and> remote_first mark_not_spam \<and> remote_first toggle_spam \<and>
   remote_first move_to_trash \<and> remote_first move_from_trash \<and> remote_first toggle_trash \<and>
   remote_first mark_important \<and> remote_first mark_not_important \<and> remote_first toggle_important \<and>
   remote_first mark_starred \<and> remote_first mark_not_starred \<and> remote_first toggle_starred \<and>
   changes_only_on_success (\<lambda>reply. edit_labels reply action add remove) \<and>
   fst (snd (edit_labels (Inl e) action add remove s)) = fst s \<and>
   (modify_payload action add remove = Inr (Some pl) \<longrightarrow>
      fst (edit_labels (Inl e) action add remove s) = Inl e)"
proof -
  have "fst (snd (edit_labels (Inl e) action add remove s)) = fst s"
    by (cases s) (simp add: edit_labels_failure split: sum.splits option.splits)
  moreover have "modify_payload action add remove = Inr (Some pl) \<longrightarrow>
      fst (edit_labels (Inl e) action add remove s) = Inl e"
    by (cases s) (simp add: edit_labels_failure)
  ultimately show ?thesis
    by (simp add: remote_first_def basic_fail basic_change marks_fail marks_change toggles_fail
          toggles_change edit_changes_only_on_success)
qed

theorem labels_change_only_after_remote_success_witness:
  "add_label (Inl (HttpError ''503'')) STARRED (inbox_message, service0) =
     (Inl (HttpError ''503''), inbox_message,
      service0\<lparr>requests := [MessagesModify ''me'' (Some ''m1'')
                                \<lparr>removeLabelIds = None, addLabelIds = Some [STARRED]\<rparr>],
                closes := 1\<rparr>) \<and>
   modify_payload TOGGLE (Some [SPAM]) (Some [INBOX]) =
     Inr (Some \<lparr>removeLabelIds = Some [INBOX], addLabelIds = Some [SPAM]\<rparr>) \<and>
   fst (edit_labels (Inl (HttpError ''503'')) TOGGLE (Some [SPAM]) (Some [INBOX]) (inbox_message, service0)) =
     Inl (HttpError ''503'') \<and>
   labelIds (fst (snd (mark_as_read (Inr ()) (inbox_message, service0)))) = Some [INBOX] \<and>
   labelIds (fst (snd (mark_as_read (Inl (HttpError ''503'')) (inbox_message, service0)))) = Some [INBOX, UNREAD]"
  using labels_change_only_after_remote_success
    [of STARRED "[]" "[]" "[]" TOGGLE "Some [SPAM]" "Some [INBOX]" "HttpError ''503''"
        "(inbox_message, service0)" "\<lparr>removeLabelIds = Some [INBOX], addLabelIds = Some [SPAM]\<rparr>"]
  by (simp add: add_label_def edit_labels_def modify_payload_def close_def execute_def
        inbox_message_def service0_def mark_as_read_def remove_label_def returning_self_def
        apply_locally_def INBOX_def UNREAD_def)

text \<open>
  C4 at a message built from JSON without a \<open>labelIds\<close> entry (\<open>labelIds\<close> is \<open>None\<close>):
  the request is executed and returns, then the membership test on \<open>None\<close> raises
  \<open>TypeError\<close>; nothing is appended and \<open>is_starred\<close> stays false.
\<close>

theorem add_label_without_labelIds_raises:
  "add_label (Inr ()) STARRED (unlabelled_message, service0) =
     (Inl TypeError, unlabelled_message,
      service0\<lparr>requests := [MessagesModify ''me'' (Some ''m1'')
                                \<lparr>removeLabelIds = None, addLabelIds = Some [STARRED]\<rparr>],
                closes := 1\<rparr>) \<and>
   \<not> is_starred unlabelled_message"
  by (simp add: add_label_def edit_labels_def modify_payload_def apply_locally_def close_def
        execute_def unlabelled_message_def service0_def is_starred_def label_flag_def)

text \<open>
  On a message whose \<open>labelIds\<close> is a list the two loops never raise: the first appends
  each label that is not yet in the list, the second removes the first occurrence of
  each label that is in it.
\<close>

lemma append_new_list:
  "append_new ls (Some xs) = Inr (Some (fold (\<lambda>l ys. if l \<notin> set ys then ys @ [l] else ys) ls xs))"
  by (induction ls arbitrary: xs) simp_all

lemma remove_present_list:
  "remove_present ls (Some xs) = Inr (Some (fold (\<lambda>l ys. if l \<in> set ys then remove1 l ys else ys) ls xs))"
  by (induction ls arbitrary: xs) simp_all

lemma append_new_set:
  "set (fold (\<lambda>l ys. if l \<notin> set ys then ys @ [l] else ys) ls xs) = set xs \<union> set ls"
  by (induction ls arbitrary: xs) auto

lemma append_new_distinct:
  "distinct xs \<Longrightarrow> distinct (fold (\<lambda>l ys. if l \<notin> set ys then ys @ [l] else ys) ls xs)"
  by (induction ls arbitrary: xs) auto

lemma remove_present_set:
  "distinct xs \<Longrightarrow>
   set (fold (\<lambda>l ys. if l \<in> set ys then remove1 l ys else ys) ls xs) = set xs - set ls"
  by (induction ls arbitrary: xs) auto

lemma edit_labels_on_list:
  assumes "labelIds m = Some xs"
  shows "fst (edit_labels (Inr ()) ADD (Some a) (Some r) (m, g)) = Inr True"
    and "labelIds (fst (snd (edit_labels (Inr ()) ADD (Some a) (Some r) (m, g)))) =
           Some (fold (\<lambda>l ys. if l \<notin> set ys then ys @ [l] else ys) a xs)"
    and "fst (edit_labels (Inr ()) REMOVE (Some a) (Some r) (m, g)) = Inr True"
    and "labelIds (fst (snd (edit_labels (Inr ()) REMOVE (Some a) (Some r) (m, g)))) =
           Some (fold (\<lambda>l ys. if l \<in> set ys then remove1 l ys else ys) r xs)"
    and "fst (edit_labels (Inr ()) TOGGLE (Some a) (Some r) (m, g)) = Inr True"
    and "labelIds (fst (snd (edit_labels (Inr ()) TOGGLE (Some a) (Some r) (m, g)))) =
           Some (fold (\<lambda>l ys. if l \<in> set ys then remove1 l ys else ys) r
                  (fold (\<lambda>l ys. if l \<notin> set ys then ys @ [l] else ys) a xs))"
  using assms
  by (simp_all add: edit_labels_def modify_payload_def apply_locally_def append_new_list
        remove_present_list)

text \<open>
  Removing the message's own list skips every other label, where removing a copy of it
  removes all; the order of request and local update is the same in both.
\<close>

lemma remove_own_labels_skips:
  "labelIds (fst (snd (remove_own_labels (Inr ())
      (\<lparr>msg_id = Some ''m1'', payload = Unset, labelIds = Some [''A'', ''B'', ''C'']\<rparr>, service0)))) =
     Some [''B''] \<and>
   labelIds (fst (snd (remove_labels (Inr ()) [''A'', ''B'', ''C'']
      (\<lparr>msg_id = Some ''m1'', payload = Unset, labelIds = Some [''A'', ''B'', ''C'']\<rparr>, service0)))) =
     Some []"
  by (simp add: remove_own_labels_def remove_labels_def edit_labels_def modify_payload_def
        apply_locally_def service0_def close_def execute_def)

lemma remove_own_labels_remote_first:
  "changes_only_on_success remove_own_labels"
  "fst (snd (remove_own_labels (Inl e) s)) = fst s"
  "labelIds (fst s) \<noteq> None \<Longrightarrow> fst (remove_own_labels (Inl e) s) = Inl e"
  by (auto simp: changes_only_on_success_def remove_own_labels_def Let_def
        close_def execute_def split: option.splits sum.splits prod.splits)

lemma add_label_on_list:
  assumes "labelIds m = Some xs"
  shows "add_label (Inr ()) l (m, g) =
           (Inr True, m\<lparr>labelIds := Some (if l \<notin> set xs then xs @ [l] else xs)\<rparr>,
            close (execute (MessagesModify (user_id g) (msg_id m)
                     \<lparr>removeLabelIds = None, addLabelIds = Some [l]\<rparr>) g))"
  using assms by (simp add: add_label_def edit_labels_def modify_payload_def apply_locally_def)

lemma remove_label_on_list:
  assumes "labelIds m = Some xs"
  shows "remove_label (Inr ()) l (m, g) =
           (Inr True, m\<lparr>labelIds := Some (remove1 l xs)\<rparr>,
            close (execute (MessagesModify (user_id g) (msg_id m)
                     \<lparr>removeLabelIds = Some [l], addLabelIds = None\<rparr>) g))"
  using assms
  by (simp add: remove_label_def edit_labels_def modify_payload_def apply_locally_def remove1_idem)

lemma label_flag_list: "labelIds m = Some xs \<Longrightarrow> label_flag l m = (l \<in> set xs)"
  by (auto simp: label_flag_def)

lemma add_label_sets_flag:
  assumes "labelIds m = Some xs"
  shows "label_flag l (fst (snd (add_label (Inr ()) l (m, g))))"
  by (auto simp: add_label_on_list[OF assms] label_flag_def)

lemma once_removed: "count_list xs a \<le> 1 \<Longrightarrow> a \<notin> set (remove1 a xs)"
  by (induction xs) (auto simp: count_list_0_iff split: if_splits)

lemma remove1_restores: "a \<in> set xs \<Longrightarrow> insert a (set (remove1 a xs)) = set xs"
  by (induction xs) auto

lemma mark_as_read_on_list:
  assumes "labelIds m = Some xs"
  shows "mark_as_read (Inr ()) (m, g) =
           (Inr (), m\<lparr>labelIds := Some (remove1 UNREAD xs)\<rparr>,
            close (execute (MessagesModify (user_id g) (msg_id m)
                     \<lparr>removeLabelIds = Some [UNREAD], addLabelIds = None\<rparr>) g))"
  by (simp add: mark_as_read_def remove_label_on_list[OF assms] returning_self_def)

lemma toggle_starred_on_list:
  assumes "labelIds m = Some xs"
  shows "\<exists>g'. toggle_starred (Inr ()) (m, g) =
           (Inr (), m\<lparr>labelIds := Some (if STARRED \<in> set xs then remove1 STARRED xs else xs @ [STARRED])\<rparr>, g')"
  by (auto simp: toggle_starred_def mark_starred_def mark_not_starred_def is_starred_def
        label_flag_list[OF assms] remove_label_on_list[OF assms] add_label_on_list[OF assms]
        returning_self_def)

text \<open>
  On a message whose \<open>labelIds\<close> is a list, and with requests that succeed,
  \<open>mark_as_read\<close> returns without error and removes the first occurrence of
  \<open>UNREAD\<close>: the message is unchanged when \<open>UNREAD\<close> is absent, and is no longer unread
  when \<open>UNREAD\<close> occurred at most once (as in every list without duplicates). When
  \<open>STARRED\<close> occurs at most once, two calls of \<open>toggle_starred\<close> in succession succeed
  and leave a list with the same set of labels as before the first call.
\<close>

lemma read_and_star_toggles_on_lists:
  assumes "labelIds m = Some xs"
  shows "fst (mark_as_read (Inr ()) (m, g)) = Inr () \<and>
         labelIds (fst (snd (mark_as_read (Inr ()) (m, g)))) = Some (remove1 UNREAD xs) \<and>
         (UNREAD \<notin> set xs \<longrightarrow> fst (snd (mark_as_read (Inr ()) (m, g))) = m) \<and>
         (count_list xs UNREAD \<le> 1 \<longrightarrow> \<not> is_unread (fst (snd (mark_as_read (Inr ()) (m, g))))) \<and>
         (count_list xs STARRED \<le> 1 \<longrightarrow>
            (\<exists>ys. fst (toggle_starred (Inr ()) (snd (toggle_starred (Inr ()) (m, g)))) = Inr () \<and>
                  labelIds (fst (snd (toggle_starred (Inr ()) (snd (toggle_starred (Inr ()) (m, g)))))) = Some ys \<and>
                  set ys = set xs))"
proof -
  have read: "mark_as_read (Inr ()) (m, g) =
           (Inr (), m\<lparr>labelIds := Some (remove1 UNREAD xs)\<rparr>,
            close (execute (MessagesModify (user_id g) (msg_id m)
                     \<lparr>removeLabelIds = Some [UNREAD], addLabelIds = None\<rparr>) g))"
    by (rule mark_as_read_on_list[OF assms])
  have noop: "UNREAD \<notin> set xs \<longrightarrow> fst (snd (mark_as_read (Inr ()) (m, g))) = m"
    using assms by (simp add: read remove1_idem)
  have gone: "count_list xs UNREAD \<le> 1 \<longrightarrow> \<not> is_unread (fst (snd (mark_as_read (Inr ()) (m, g))))"
    by (simp add: read is_unread_def label_flag_def once_removed)
  have twice: "\<exists>ys. fst (toggle_starred (Inr ()) (snd (toggle_starred (Inr ()) (m, g)))) = Inr () \<and>
                  labelIds (fst (snd (toggle_starred (Inr ()) (snd (toggle_starred (Inr ()) (m, g)))))) = Some ys \<and>
                  set ys = set xs"
    if once: "count_list xs STARRED \<le> 1"
  proof -
    let ?ys = "if STARRED \<in> set xs then remove1 STARRED xs else xs @ [STARRED]"
    let ?m1 = "m\<lparr>labelIds := Some ?ys\<rparr>"
    from toggle_starred_on_list[OF assms] obtain g1 where
      t1: "toggle_starred (Inr ()) (m, g) = (Inr (), ?m1, g1)" by blast
    have l1: "labelIds ?m1 = Some ?ys" by simp
    let ?zs = "if STARRED \<in> set ?ys then remove1 STARRED ?ys else ?ys @ [STARRED]"
    from toggle_starred_on_list[OF l1] obtain g2 where
      t2: "toggle_starred (Inr ()) (?m1, g1) = (Inr (), ?m1\<lparr>labelIds := Some ?zs\<rparr>, g2)" by blast
    have "set ?zs = set xs"
    proof (cases "STARRED \<in> set xs")
      case True
      with once have "STARRED \<notin> set (remove1 STARRED xs)" by (simp add: once_removed)
      with True show ?thesis by (simp add: remove1_restores)
    next
      case False
      then show ?thesis by (simp add: remove1_append remove1_idem)
    qed
    with t1 t2 show ?thesis by simp
  qed
  from read noop gone twice show ?thesis by simp
qed

lemma read_and_star_toggles_example:
  "labelIds inbox_message = Some [INBOX, UNREAD] \<and> count_list [INBOX, UNREAD] UNREAD \<le> 1 \<and>
   count_list [INBOX, UNREAD] STARRED \<le> 1 \<and>
   labelIds (fst (snd (mark_as_read (Inr ()) (inbox_message, service0)))) = Some [INBOX] \<and>
   labelIds (fst (snd (toggle_starred (Inr ()) (inbox_message, service0)))) = Some [INBOX, UNREAD, STARRED] \<and>
   labelIds (fst (snd (toggle_starred (Inr ()) (snd (toggle_starred (Inr ()) (inbox_message, service0)))))) =
     Some [INBOX, UNREAD]"
  using read_and_star_toggles_on_lists [of inbox_message "[INBOX, UNREAD]" service0]
  by (simp add: toggle_starred_def mark_not_starred_def mark_starred_def remove_label_def add_label_def
        mark_as_read_def edit_labels_def modify_payload_def apply_locally_def returning_self_def
        is_starred_def label_flag_def inbox_message_def service0_def close_def execute_def
        INBOX_def UNREAD_def STARRED_def)

text \<open>
  C8 at a message built from JSON without a \<open>labelIds\<close> entry (\<open>labelIds\<close> is \<open>None\<close>,
  so \<open>UNREAD\<close> and \<open>STARRED\<close> are absent): \<open>mark_as_read\<close> executes its request, which
  returns, and then raises \<open>TypeError\<close> at the membership test on \<open>None\<close> instead of
  being a no-op; \<open>toggle_starred\<close> raises the same way at its first call, after its
  request, and the message is not starred.
\<close>

theorem mark_as_read_without_labelIds_raises:
  "mark_as_read (Inr ()) (unlabelled_message, service0) =
     (Inl TypeError, unlabelled_message,
      service0\<lparr>requests := [MessagesModify ''me'' (Some ''m1'')
                                \<lparr>removeLabelIds = Some [UNREAD], addLabelIds = None\<rparr>],
                closes := 1\<rparr>) \<and>
   toggle_starred (Inr ()) (unlabelled_message, service0) =
     (Inl TypeError, unlabelled_message,
      service0\<lparr>requests := [MessagesModify ''me'' (Some ''m1'')
                                \<lparr>removeLabelIds = None, addLabelIds = Some [STARRED]\<rparr>],
                closes := 1\<rparr>) \<and>
   \<not> is_unread unlabelled_message \<and> \<not> is_starred unlabelled_message"
  by (simp add: mark_as_read_def toggle_starred_def mark_starred_def remove_label_def add_label_def
        edit_labels_def modify_payload_def apply_locally_def returning_self_def close_def
        execute_def unlabelled_message_def service0_def is_unread_def is_starred_def label_flag_def)

section \<open>Downloading an attachment\<close>

text \<open>
  C7, as the spec states it, fails for an empty payload: the download succeeds and
  stores the empty text, which the truth test \<open>if self.data\<close> takes for absent, so the
  next download executes a second request.
\<close>

theorem empty_download_is_repeated:
  "download sample_b64 (Inr (Response (Some []))) (lazy_attachment, service0) =
     (Inr (), lazy_attachment\<lparr>att_data := Some []\<rparr>,
      service0\<lparr>requests := [AttachmentsGet ''me'' ''m1'' ''att-1''], closes := 1\<rparr>) \<and>
   download sample_b64 (Inr (Response (Some ''aGk='')))
       (snd (download sample_b64 (Inr (Response (Some []))) (lazy_attachment, service0))) =
     (Inr (), lazy_attachment\<lparr>att_data := Some ''hi''\<rparr>,
      service0\<lparr>requests := [AttachmentsGet ''me'' ''m1'' ''att-1'', AttachmentsGet ''me'' ''m1'' ''att-1''],
                closes := 2\<rparr>)"
  by (simp add: download_def lazy_attachment_def service0_def sample_b64_def close_def execute_def)

text \<open>
  C7, amended: \<open>download\<close> returns at once, with no request executed, when \<open>id\<close> is
  absent or empty, or \<open>data\<close> is present and non-empty. Otherwise it raises
  \<open>TypeError\<close>, before any request, when \<open>google_service.message_id\<close> is absent or
  empty. Otherwise it executes one request and closes the service: an exception of the
  request is raised as it is; a reply with a \<open>data\<close> entry that decodes is stored,
  decoded, in \<open>data\<close>; and after a download that stored a non-empty payload the next
  download is a no-op.
\<close>

theorem download_steps:
  "((\<not> truthy (att_id a) \<or> truthy (att_data a)) \<longrightarrow> download b64 reply (a, g) = (Inr (), a, g)) \<and>
   (truthy (att_id a) \<and> \<not> truthy (att_data a) \<and> \<not> truthy (message_id g) \<longrightarrow>
      download b64 reply (a, g) = (Inl TypeError, a, g)) \<and>
   (att_id a = Some aid \<and> aid \<noteq> [] \<and> \<not> truthy (att_data a) \<and> message_id g = Some mid \<and> mid \<noteq> [] \<longrightarrow>
      (\<forall>e. reply = Inl e \<longrightarrow>
         download b64 reply (a, g) =
           (Inl e, a, close (execute (AttachmentsGet (user_id g) mid aid) g))) \<and>
      (\<forall>d bytes. reply = Inr (Response (Some d)) \<and> b64 d = Inr bytes \<longrightarrow>
         download b64 reply (a, g) =
           (Inr (), a\<lparr>att_data := Some bytes\<rparr>, close (execute (AttachmentsGet (user_id g) mid aid) g)) \<and>
         (bytes \<noteq> [] \<longrightarrow>
            download b64 reply' (snd (download b64 reply (a, g))) = (Inr (), snd (download b64 reply (a, g))))))"
  by (cases "att_id a"; cases "att_data a"; cases "message_id g")
     (auto simp: download_def Let_def)

theorem download_steps_witness:
  "att_id lazy_attachment = Some ''att-1'' \<and> \<not> truthy (att_data lazy_attachment) \<and>
   message_id service0 = Some ''m1'' \<and> sample_b64 ''aGk='' = Inr ''hi'' \<and>
   download sample_b64 (Inr (Response (Some ''aGk=''))) (lazy_attachment, service0) =
     (Inr (), lazy_attachment\<lparr>att_data := Some ''hi''\<rparr>,
      service0\<lparr>requests := [AttachmentsGet ''me'' ''m1'' ''att-1''], closes := 1\<rparr>) \<and>
   download sample_b64 (Inl (HttpError ''500''))
       (snd (download sample_b64 (Inr (Response (Some ''aGk=''))) (lazy_attachment, service0))) =
     (Inr (), lazy_attachment\<lparr>att_data := Some ''hi''\<rparr>,
      service0\<lparr>requests := [AttachmentsGet ''me'' ''m1'' ''att-1''], closes := 1\<rparr>) \<and>
   download sample_b64 (Inr NoResponse) (lazy_attachment, service0\<lparr>message_id := None\<rparr>) =
     (Inl TypeError, lazy_attachment, service0\<lparr>message_id := None\<rparr>)"
  using download_steps [of lazy_attachment sample_b64 "Inr (Response (Some ''aGk=''))" service0
          "''att-1''" "''m1''" "Inl (HttpError ''500'')"]
  by (simp add: download_def lazy_attachment_def service0_def sample_b64_def close_def execute_def)

section \<open>Sender and date\<close>

lemma str_in_char: "str_in [c] s \<longleftrightarrow> c \<in> set s"
  by (induction s) auto

text \<open>
  Splitting at a one-character separator: the first piece is the text up to the first
  occurrence, the second the text between the first and the next occurrence.
\<close>

lemma pieces_char:
  "pieces [c] acc s =
     (if c \<in> set s then (rev acc @ up_to c s) # pieces [c] [] (after_first c s)
      else [rev acc @ s])"
  by (induction s arbitrary: acc) (auto simp: up_to_def after_first_def)

lemma pieces_char_second:
  assumes "c \<in> set s"
  shows "index (pieces [c] [] s) 1 = Inr (up_to c (after_first c s))"
proof -
  have "pieces [c] [] s = up_to c s # pieces [c] [] (after_first c s)"
    using assms by (subst pieces_char) simp
  moreover have "\<exists>rest. pieces [c] [] (after_first c s) = up_to c (after_first c s) # rest"
    by (subst pieces_char) (auto simp: up_to_def intro: sym[OF takeWhile_eq_all_conv[THEN iffD2]])
  ultimately show ?thesis by (auto simp: index_def)
qed

lemma sender_of_value:
  assumes "sender_header m = Inr (Some v)"
  shows "sender m =
     Inr (if v = [] then None
          else if dquote \<in> set v then Some (up_to dquote (after_first dquote v))
          else if CHR ''<'' \<in> set v then
            Some (filter (\<lambda>x. x \<noteq> CHR ''>'') (up_to (CHR ''<'') (after_first (CHR ''<'') v)))
          else Some v)"
proof -
  have rc: "\<And>t. replace_char (CHR ''>'') [] t = filter (\<lambda>x. x \<noteq> CHR ''>'') t"
    subgoal for t by (induction t) (simp_all add: replace_char_def)
    done
  show ?thesis
    using assms
    by (simp add: sender_def str_in_char str_split_def pieces_char_second[unfolded One_nat_def] rc)
qed

lemma sender_header_find:
  "sender_header m =
     (case payload m of
        Unset \<Rightarrow> Inl AttributeError
      | NoPayload \<Rightarrow> Inr None
      | Payload p \<Rightarrow> Inr (map_option header_value (find (\<lambda>h. header_name h = ''From'') (headers p))))"
  by (cases "payload m")
     (auto simp: sender_header_def message_headers_def split: option.splits)

text \<open>
  C5 at a \<open>From\<close> value with text after the closing bracket: the code takes everything
  after the first \<open><\<close> and deletes the \<open>>\<close> characters, so the comment after the
  address stays in the result, which is not the text between the brackets. The branch
  for a quoted name cuts at the closing quote and drops what follows.
\<close>

theorem sender_keeps_text_after_bracket:
  "sender (message_with_headers [from_header ''<jane@example.com> (Jane Doe)'']) =
     Inr (Some ''jane@example.com (Jane Doe)'') \<and>
   sender (message_with_headers [from_header ([dquote] @ ''Jane Doe'' @ [dquote] @ '' (work)'')]) =
     Inr (Some ''Jane Doe'')"
  by (simp add: sender_def sender_header_def message_headers_def message_with_headers_def
        from_header_def str_split_def index_def replace_char_def dquote_def)

text \<open>
  What \<open>sender\<close> computes: for a message whose first \<open>From\<close> header has the value
  \<open>v\<close>, it is \<open>None\<close> when \<open>v\<close> is empty; otherwise, when \<open>v\<close> contains a double quote, the
  text after the first double quote up to the next one (or to the end of \<open>v\<close>);
  otherwise, when \<open>v\<close> contains \<open><\<close>, the text after the first \<open><\<close> up to the next
  \<open><\<close> (or to the end) with every \<open>>\<close> removed; otherwise \<open>v\<close> itself. For a
  payload without \<open>From\<close> header \<open>sender\<close> is \<open>None\<close>. The two examples of the spec
  hold. A message built from JSON without a payload has no \<open>payload\<close> attribute, and
  \<open>sender\<close> raises \<open>AttributeError\<close>.
\<close>

lemma sender_without_payload:
  "payload m = Unset \<Longrightarrow> sender m = Inl AttributeError"
  by (simp add: sender_def sender_header_find)

lemma sender_from_header_value:
  "(payload m = Payload p \<and> find (\<lambda>h. header_name h = ''From'') (headers p) = Some h \<longrightarrow>
      sender m =
        Inr (if header_value h = [] then None
             else if dquote \<in> set (header_value h) then
               Some (up_to dquote (after_first dquote (header_value h)))
             else if CHR ''<'' \<in> set (header_value h) then
               Some (filter (\<lambda>x. x \<noteq> CHR ''>'')
                      (up_to (CHR ''<'') (after_first (CHR ''<'') (header_value h))))
             else Some (header_value h))) \<and>
   (payload m = Payload p \<and> find (\<lambda>h. header_name h = ''From'') (headers p) = None \<longrightarrow>
      sender m = Inr None) \<and>
   sender (message_with_headers [from_header ([dquote] @ ''Jane Doe'' @ [dquote] @ '' <jane@example.com>'')]) =
     Inr (Some ''Jane Doe'') \<and>
   sender (message_with_headers [from_header ''<jane@example.com>'']) = Inr (Some ''jane@example.com'')"
proof -
  have a: "sender m =
        Inr (if header_value h = [] then None
             else if dquote \<in> set (header_value h) then
               Some (up_to dquote (after_first dquote (header_value h)))
             else if CHR ''<'' \<in> set (header_value h) then
               Some (filter (\<lambda>x. x \<noteq> CHR ''>'')
                      (up_to (CHR ''<'') (after_first (CHR ''<'') (header_value h))))
             else Some (header_value h))"
    if "payload m = Payload p" "find (\<lambda>h. header_name h = ''From'') (headers p) = Some h"
  proof -
    from that have "sender_header m = Inr (Some (header_value h))"
      by (simp add: sender_header_find)
    then show ?thesis by (rule sender_of_value)
  qed
  have b: "sender m = Inr None"
    if "payload m = Payload p" "find (\<lambda>h. header_name h = ''From'') (headers p) = None"
    using that by (simp add: sender_def sender_header_find)
  have c: "sender (message_with_headers [from_header ([dquote] @ ''Jane Doe'' @ [dquote] @ '' <jane@example.com>'')]) =
     Inr (Some ''Jane Doe'')"
    by (simp add: sender_def sender_header_def message_headers_def message_with_headers_def
        from_header_def str_split_def index_def replace_char_def dquote_def)
  have d: "sender (message_with_headers [from_header ''<jane@example.com>'']) = Inr (Some ''jane@example.com'')"
    by (simp add: sender_def sender_header_def message_headers_def message_with_headers_def
        from_header_def str_split_def index_def replace_char_def dquote_def)
  from a b c d show ?thesis by blast
qed

lemma sender_from_header_value_example:
  "payload (message_with_headers [from_header ''Jane <jane@example.com>, Bob <bob@example.com>'']) =
     Payload (MessagePart (Some ''text/plain'') [from_header ''Jane <jane@example.com>, Bob <bob@example.com>''] [] None None None) \<and>
   sender (message_with_headers [from_header ''Jane <jane@example.com>, Bob <bob@example.com>'']) =
     Inr (Some ''jane@example.com, Bob '') \<and>
   sender (message_with_headers []) = Inr None"
  using sender_from_header_value
    [of "message_with_headers [from_header ''Jane <jane@example.com>, Bob <bob@example.com>'']"
        "MessagePart (Some ''text/plain'') [from_header ''Jane <jane@example.com>, Bob <bob@example.com>''] [] None None None"
        "from_header ''Jane <jane@example.com>, Bob <bob@example.com>''"]
    sender_from_header_value
    [of "message_with_headers []" "MessagePart (Some ''text/plain'') [] [] None None None"]
  by (simp add: message_with_headers_def from_header_def up_to_def after_first_def dquote_def)














end
